theory Spec2Isabelle
  imports Main
begin

section \<open>JavaScript values\<close>

text \<open>
  The console is JavaScript.  A value that came out of \<^verbatim>\<open>JSON.parse\<close> (a response body,
  the user record, a status report) is a \<open>json\<close>; \<^verbatim>\<open>undefined\<close> is \<open>None\<close> of
  \<open>json option\<close>.  A number is a double; no function below does arithmetic on a number
  of a response, they read its truthiness and print it.  So a number is kept as the text
  \<^verbatim>\<open>String(n)\<close> gives for it: \<^verbatim>\<open>0\<close> for both zeros, \<^verbatim>\<open>42\<close>, \<^verbatim>\<open>-3\<close>, \<^verbatim>\<open>87.5\<close>,
  \<^verbatim>\<open>1e+21\<close>.  Every number has exactly one such text; a text that prints no number stands
  for no value.
\<close>

datatype json =
    JNull
  | JBool bool
  | JNum string
  | JStr string
  | JArr "json list"
  | JObj "(string \<times> json) list"

text \<open>Truthiness, as \<^verbatim>\<open>if (v)\<close>, \<^verbatim>\<open>!v\<close> and \<^verbatim>\<open>a || b\<close> read it.\<close>

fun truthy :: "json \<Rightarrow> bool" where
  "truthy JNull = False"
| "truthy (JBool b) = b"
| "truthy (JNum n) = (n \<noteq> ''0'')"
| "truthy (JStr s) = (s \<noteq> [])"
| "truthy (JArr xs) = True"
| "truthy (JObj kvs) = True"

fun truthy_opt :: "json option \<Rightarrow> bool" where
  "truthy_opt None = False"
| "truthy_opt (Some v) = truthy v"

text \<open>
  \<^verbatim>\<open>v.k\<close> for a named data property \<open>k\<close> of a value that is not \<^verbatim>\<open>null\<close>: an object
  gives the property or \<^verbatim>\<open>undefined\<close>, a primitive or an array has no such property
  (no function below reads \<^verbatim>\<open>length\<close> or an index this way).  On \<^verbatim>\<open>null\<close> the read
  raises a TypeError; every function below that reads a property of a value that can be
  \<^verbatim>\<open>null\<close> writes that branch out, and \<open>get_prop JNull k\<close> is used only under
  \<^verbatim>\<open>?.\<close>, where it is \<^verbatim>\<open>undefined\<close>.
\<close>

fun get_prop :: "json \<Rightarrow> string \<Rightarrow> json option" where
  "get_prop (JObj kvs) k = map_of kvs k"
| "get_prop _ k = None"

text \<open>\<^verbatim>\<open>a || b\<close> on a possibly undefined left operand.\<close>

fun js_or :: "json option \<Rightarrow> json \<Rightarrow> json" where
  "js_or (Some v) d = (if truthy v then v else d)"
| "js_or None d = d"

section \<open>The route guard\<close>

text \<open>
  \<^verbatim>\<open>ProtectedRoute\<close> renders either its children or a \<^verbatim>\<open><Navigate to=... replace />\<close>,
  and remembers the current path in \<^verbatim>\<open>sessionStorage\<close> before two of its redirects.
  The repository holds two versions of \<^verbatim>\<open>App.jsx\<close>: the one with
  \<^verbatim>\<open>getDefaultPathForRole\<close> (header ``Fixed Version'') is \<open>ProtectedRoute\<close> here, the
  one of \<^verbatim>\<open>src/frontend/src/App.jsx\<close> (header ``Complete Version'') is
  \<open>ProtectedRoute_App\<close>.  They differ in the role branch only.
\<close>

datatype rendered = Navigate string | Children

type_synonym storage = "string \<rightharpoonup> string"

text \<open>\<^verbatim>\<open>switch (role)\<close> compares with \<^verbatim>\<open>===\<close>: only the strings themselves match.\<close>

definition getDefaultPathForRole :: "json option \<Rightarrow> string" where
  "getDefaultPathForRole role =
     (if role = Some (JStr ''owner'') then ''/owner''
      else if role = Some (JStr ''admin'') then ''/admin''
      else ''/dashboard'')"

text \<open>
  \<^verbatim>\<open>allowedRoles.includes(user.role)\<close>: every route passes an array of string literals,
  so only a string role can be found in it.
\<close>

fun includes_role :: "string list \<Rightarrow> json option \<Rightarrow> bool" where
  "includes_role allowedRoles (Some (JStr r)) = (r \<in> set allowedRoles)"
| "includes_role allowedRoles _ = False"

definition ProtectedRoute ::
  "json \<Rightarrow> string list \<Rightarrow> bool \<Rightarrow> string \<Rightarrow> storage \<Rightarrow> rendered \<times> storage" where
  "ProtectedRoute user allowedRoles requiresContactInfo pathname sessionStorage =
     (if \<not> truthy user then
        (Navigate ''/'', sessionStorage(''redirectAfterLogin'' \<mapsto> pathname))
      else if allowedRoles \<noteq> [] \<and> \<not> includes_role allowedRoles (get_prop user ''role'') then
        (Navigate (getDefaultPathForRole (get_prop user ''role'')), sessionStorage)
      else if requiresContactInfo \<and> \<not> truthy_opt (get_prop user ''contactInfoCompleted'')
              \<and> pathname \<noteq> ''/contact-info'' then
        (Navigate ''/contact-info'', sessionStorage(''redirectAfterContactInfo'' \<mapsto> pathname))
      else (Children, sessionStorage))"

definition ProtectedRoute_App ::
  "json \<Rightarrow> string list \<Rightarrow> bool \<Rightarrow> string \<Rightarrow> storage \<Rightarrow> rendered \<times> storage" where
  "ProtectedRoute_App user allowedRoles requiresContactInfo pathname sessionStorage =
     (if \<not> truthy user then
        (Navigate ''/'', sessionStorage(''redirectAfterLogin'' \<mapsto> pathname))
      else if allowedRoles \<noteq> [] \<and> \<not> includes_role allowedRoles (get_prop user ''role'') then
        (Navigate ''/dashboard'', sessionStorage)
      else if requiresContactInfo \<and> \<not> truthy_opt (get_prop user ''contactInfoCompleted'')
              \<and> pathname \<noteq> ''/contact-info'' then
        (Navigate ''/contact-info'', sessionStorage(''redirectAfterContactInfo'' \<mapsto> pathname))
      else (Children, sessionStorage))"

section \<open>Strings\<close>

text \<open>
  Decimal digits of a natural number, as a template literal prints an HTTP status, a
  number of days or an array index.
\<close>

definition digit :: "nat \<Rightarrow> char" where
  "digit d = ''0123456789'' ! d"

fun show_nat :: "nat \<Rightarrow> string" where
  "show_nat n = (if n < 10 then [digit n] else show_nat (n div 10) @ [digit (n mod 10)])"

fun join :: "string \<Rightarrow> string list \<Rightarrow> string" where
  "join sep [] = []"
| "join sep [x] = x"
| "join sep (x # y # ys) = x @ sep @ join sep (y # ys)"

text \<open>
  \<^verbatim>\<open>String(v)\<close>, which \<^verbatim>\<open>new Error(v)\<close> and a template literal apply: an array joins
  its elements with a comma (\<^verbatim>\<open>null\<close> elements print empty), a plain object prints
  as \<^verbatim>\<open>[object Object]\<close>.
\<close>

fun toString_js :: "json \<Rightarrow> string" where
  "toString_js JNull = ''null''"
| "toString_js (JBool b) = (if b then ''true'' else ''false'')"
| "toString_js (JNum n) = n"
| "toString_js (JStr s) = s"
| "toString_js (JArr xs) =
     join '','' (map (\<lambda>x. if x = JNull then [] else toString_js x) xs)"
| "toString_js (JObj kvs) = ''[object Object]''"

text \<open>\<^verbatim>\<open>s.includes(t)\<close>: \<open>t\<close> occurs in \<open>s\<close> as a contiguous run.\<close>

fun starts_with :: "string \<Rightarrow> string \<Rightarrow> bool" where
  "starts_with s [] = True"
| "starts_with [] (c # t) = False"
| "starts_with (d # s) (c # t) = (d = c \<and> starts_with s t)"

fun includes_str :: "string \<Rightarrow> string \<Rightarrow> bool" where
  "includes_str [] t = (t = [])"
| "includes_str (c # s) t = (starts_with (c # s) t \<or> includes_str s t)"

text \<open>
  \<^verbatim>\<open>action.charAt(0).toUpperCase() + action.slice(1)\<close>; the actions passed are the
  ASCII words \<^verbatim>\<open>login\<close>, \<^verbatim>\<open>register\<close> and \<^verbatim>\<open>operation\<close>.
\<close>

definition toUpperCase_char :: "char \<Rightarrow> char" where
  "toUpperCase_char c =
     (let n = of_char c :: nat in if 97 \<le> n \<and> n \<le> 122 then char_of (n - 32) else c)"

fun capitalize :: "string \<Rightarrow> string" where
  "capitalize [] = []"
| "capitalize (c # cs) = toUpperCase_char c # cs"

section \<open>Errors and the browser's state\<close>

text \<open>
  What a \<^verbatim>\<open>catch\<close> can read of a thrown error: \<^verbatim>\<open>error.code\<close>,
  \<^verbatim>\<open>error.message\<close> and, on an error of the HTTP client for a response that arrived,
  \<^verbatim>\<open>error.response\<close> with its \<^verbatim>\<open>status\<close> and \<^verbatim>\<open>data\<close>.
\<close>

record jserror =
  code :: "string option"
  message :: string
  response :: "(nat \<times> json) option"

text \<open>\<^verbatim>\<open>new Error(m)\<close>: a message and nothing else.\<close>

definition new_Error :: "string \<Rightarrow> jserror" where
  "new_Error m = \<lparr>code = None, message = m, response = None\<rparr>"

text \<open>
  The TypeError of reading property \<open>k\<close> of \<^verbatim>\<open>null\<close>, with its message as V8 words it
  (the property name in single quotes).  Other engines word it differently; the functions
  below only test that the message is not empty and hand it on.
\<close>

definition null_read :: "string \<Rightarrow> jserror" where
  "null_read k =
     new_Error (''Cannot read properties of null (reading '' @ [CHR 0x27] @ k @ [CHR 0x27]
                @ '')'')"

text \<open>
  \<^verbatim>\<open>localStorage\<close> holds strings.  \<^verbatim>\<open>JSON.stringify(v)\<close> is kept symbolic
  (\<open>Stringified v\<close>): nothing here uses the value parsed from a stored text.
\<close>

datatype stored = Plain string | Stringified "json option"

record request =
  http_method :: string
  url :: string
  authorization :: "stored option"

text \<open>
  The part of the browser the services write: \<^verbatim>\<open>localStorage\<close>, the last value assigned
  to \<^verbatim>\<open>window.location.href\<close> (a hard navigation), and the HTTP requests sent so far,
  oldest first.
\<close>

record world =
  localStorage :: "string \<rightharpoonup> stored"
  href :: "string option"
  sent :: "request list"

definition removeItem :: "string \<Rightarrow> world \<Rightarrow> world" where
  "removeItem k w = w\<lparr>localStorage := (localStorage w)(k := None)\<rparr>"

definition setItem :: "string \<Rightarrow> stored \<Rightarrow> world \<Rightarrow> world" where
  "setItem k v w = w\<lparr>localStorage := (localStorage w)(k \<mapsto> v)\<rparr>"

text \<open>
  \<^verbatim>\<open>localStorage.getItem('access_token')\<close> where the code tests it: \<^verbatim>\<open>null\<close> and
  the empty string are falsy.
\<close>

definition getToken :: "world \<Rightarrow> stored option" where
  "getToken w =
     (case localStorage w ''access_token'' of
        Some (Plain t) \<Rightarrow> if t = [] then None else Some (Plain t)
      | Some (Stringified v) \<Rightarrow> Some (Stringified v)
      | None \<Rightarrow> None)"

section \<open>The API service\<close>

text \<open>
  How one HTTP exchange ends, as the HTTP client reports it to its interceptors: fulfilled
  with a response (a 2xx status; the response interceptor keeps \<^verbatim>\<open>response.data\<close>), or
  rejected with an error, which carries \<^verbatim>\<open>response\<close> when a response with another
  status arrived and none when the server was not reached.  The outcome of a request is
  an argument of every function that sends one: the backend is not part of the program.
  Request bodies are not recorded.
\<close>

datatype outcome = Fulfilled json | Rejected jserror

text \<open>
  The client instance with both interceptors of \<^verbatim>\<open>setupInterceptors\<close>: the request
  interceptor attaches \<^verbatim>\<open>Bearer <token>\<close> when a token is stored, the response
  interceptor, on status 401, removes \<^verbatim>\<open>access_token\<close> and \<^verbatim>\<open>user_info\<close> and assigns
  \<^verbatim>\<open>window.location.href = '/'\<close>, then rejects with the same error.
\<close>

definition axiosInstance ::
  "string \<Rightarrow> string \<Rightarrow> outcome \<Rightarrow> world \<Rightarrow> (jserror + json) \<times> world" where
  "axiosInstance m u out w =
     (let w1 = w\<lparr>sent := sent w @ [\<lparr>http_method = m, url = u, authorization = getToken w\<rparr>]\<rparr>
      in case out of
           Fulfilled d \<Rightarrow> (Inr d, w1)
         | Rejected e \<Rightarrow>
             (if map_option fst (response e) = Some 401
              then (Inl e, (removeItem ''user_info'' (removeItem ''access_token'' w1))
                             \<lparr>href := Some ''/''\<rparr>)
              else (Inl e, w1)))"

text \<open>
  \<^verbatim>\<open>makeRequest\<close>: one call of the client; in its \<^verbatim>\<open>catch\<close>, an error whose response
  has a truthy body is replaced by \<^verbatim>\<open>new Error(detail || message || 'Request failed')\<close>,
  any other error is thrown again as it is.
\<close>

definition makeRequest ::
  "string \<Rightarrow> string \<Rightarrow> outcome \<Rightarrow> world \<Rightarrow> (jserror + json) \<times> world" where
  "makeRequest m u out w =
     (case axiosInstance m u out w of
        (Inr d, w1) \<Rightarrow> (Inr d, w1)
      | (Inl e, w1) \<Rightarrow>
          (case response e of
             Some (status, d) \<Rightarrow>
               if truthy d
               then (Inl (new_Error (toString_js
                       (js_or (get_prop d ''detail'')
                          (js_or (get_prop d ''message'') (JStr ''Request failed''))))), w1)
               else (Inl e, w1)
           | None \<Rightarrow> (Inl e, w1)))"

text \<open>
  \<^verbatim>\<open>ApiService.login\<close> and \<^verbatim>\<open>ApiService.register\<close> store the token and the user before
  they return the response.
\<close>

definition api_login :: "outcome \<Rightarrow> world \<Rightarrow> (jserror + json) \<times> world" where
  "api_login out w =
     (case makeRequest ''post'' ''/api/auth/login'' out w of
        (Inr r, w1) \<Rightarrow>
          (case get_prop r ''access_token'' of
             Some t \<Rightarrow>
               if truthy r \<and> truthy t
               then (Inr r, setItem ''user_info'' (Stringified (get_prop r ''user''))
                              (setItem ''access_token'' (Plain (toString_js t)) w1))
               else (Inr r, w1)
           | None \<Rightarrow> (Inr r, w1))
      | (Inl e, w1) \<Rightarrow> (Inl e, w1))"


text \<open>
  \<^verbatim>\<open>ApiService.logout\<close>: the \<^verbatim>\<open>finally\<close> removes both entries whether or not the
  request failed.
\<close>

definition api_logout :: "outcome \<Rightarrow> world \<Rightarrow> (jserror + json) \<times> world" where
  "api_logout out w =
     (case makeRequest ''post'' ''/api/auth/logout'' out w of
        (r, w1) \<Rightarrow> (r, removeItem ''user_info'' (removeItem ''access_token'' w1)))"

definition getCurrentUser :: "outcome \<Rightarrow> world \<Rightarrow> (jserror + json) \<times> world" where
  "getCurrentUser out w = makeRequest ''get'' ''/api/auth/me'' out w"




text \<open>
  \<^verbatim>\<open>{...v}\<close>: the own enumerable properties of \<open>v\<close>.  An object gives its properties,
  an array and a string their indices, any other value nothing.
\<close>

fun spread_js :: "json \<Rightarrow> (string \<rightharpoonup> json)" where
  "spread_js (JObj kvs) = map_of kvs"
| "spread_js (JArr xs) = map_of (zip (map show_nat [0 ..< length xs]) xs)"
| "spread_js (JStr s) = map_of (zip (map show_nat [0 ..< length s]) (map (\<lambda>c. JStr [c]) s))"
| "spread_js _ = Map.empty"

definition summary_fields :: "string list" where
  "summary_fields =
     [''campaigns_count'', ''active_campaigns'', ''completed_campaigns'', ''success_rate'',
      ''total_submissions'', ''successful_submissions'', ''failed_submissions'',
      ''websites_count'']"

text \<open>The object literal of the \<^verbatim>\<open>try\<close> branch before \<^verbatim>\<open>...response\<close> is spread over it.\<close>

definition analytics_defaults :: "json \<Rightarrow> (string \<times> json) list" where
  "analytics_defaults r =
     [(''campaigns_count'', js_or (get_prop r ''campaigns_count'') (JNum ''0'')),
      (''total_campaigns'', js_or (get_prop r ''campaigns_count'') (JNum ''0'')),
      (''active_campaigns'', js_or (get_prop r ''active_campaigns'') (JNum ''0'')),
      (''completed_campaigns'', js_or (get_prop r ''completed_campaigns'') (JNum ''0'')),
      (''success_rate'', js_or (get_prop r ''success_rate'') (JNum ''0'')),
      (''total_submissions'', js_or (get_prop r ''total_submissions'') (JNum ''0'')),
      (''successful_submissions'', js_or (get_prop r ''successful_submissions'') (JNum ''0'')),
      (''failed_submissions'', js_or (get_prop r ''failed_submissions'') (JNum ''0'')),
      (''websites_count'', js_or (get_prop r ''websites_count'') (JNum ''0''))]"

text \<open>The object of the \<^verbatim>\<open>catch\<close> branch.\<close>

definition analytics_failed :: "(string \<times> json) list" where
  "analytics_failed =
     [(''campaigns_count'', JNum ''0''),
      (''total_campaigns'', JNum ''0''),
      (''active_campaigns'', JNum ''0''),
      (''completed_campaigns'', JNum ''0''),
      (''success_rate'', JNum ''0''),
      (''total_submissions'', JNum ''0''),
      (''successful_submissions'', JNum ''0''),
      (''failed_submissions'', JNum ''0''),
      (''websites_count'', JNum ''0''),
      (''error'', JBool True)]"

text \<open>
  \<^verbatim>\<open>getUserAnalytics\<close>: the whole body is inside \<^verbatim>\<open>try\<close>, and the \<^verbatim>\<open>catch\<close> only
  logs and returns, so the function returns an object on every path.  A \<^verbatim>\<open>null\<close>
  response makes \<^verbatim>\<open>response.campaigns_count\<close> raise inside the \<^verbatim>\<open>try\<close>, which the
  \<^verbatim>\<open>catch\<close> turns into the failure object.
\<close>

definition getUserAnalytics :: "outcome \<Rightarrow> world \<Rightarrow> (string \<rightharpoonup> json) \<times> world" where
  "getUserAnalytics out w =
     (case makeRequest ''get'' ''/api/analytics/user'' out w of
        (Inr r, w1) \<Rightarrow>
          if r = JNull then (map_of analytics_failed, w1)
          else (map_of (analytics_defaults r) ++ spread_js r, w1)
      | (Inl e, w1) \<Rightarrow> (map_of analytics_failed, w1))"

section \<open>The session controller\<close>

text \<open>One entry of a 422 response's \<^verbatim>\<open>detail\<close> array, as the \<^verbatim>\<open>map\<close> callback prints it.\<close>

definition friendly_field :: "json \<Rightarrow> json" where
  "friendly_field field =
     (if field = JStr ''email'' then JStr ''Email''
      else if field = JStr ''password'' then JStr ''Password''
      else if field = JStr ''first_name'' then JStr ''First Name''
      else if field = JStr ''last_name'' then JStr ''Last Name''
      else field)"

fun validation_line :: "json \<Rightarrow> jserror + string" where
  "validation_line JNull = Inl (null_read ''loc'')"
| "validation_line err =
     (let field = (case get_prop err ''loc'' of
                     Some (JArr (l # ls)) \<Rightarrow> friendly_field (last (l # ls))
                   | _ \<Rightarrow> JStr ''Field'')
      in Inr (toString_js field @ '': '' @
              toString_js (js_or (get_prop err ''msg'') (JStr ''Invalid value''))))"

fun validation_lines :: "json list \<Rightarrow> jserror + string list" where
  "validation_lines [] = Inr []"
| "validation_lines (err # errs) =
     (case validation_line err of
        Inl e \<Rightarrow> Inl e
      | Inr l \<Rightarrow> (case validation_lines errs of Inl e \<Rightarrow> Inl e | Inr ls \<Rightarrow> Inr (l # ls)))"

text \<open>\<^verbatim>\<open>data?.k\<close>.\<close>

definition opt_prop :: "json \<Rightarrow> string \<Rightarrow> json option" where
  "opt_prop d k = (if d = JNull then None else get_prop d k)"

text \<open>
  \<^verbatim>\<open>getErrorMessage(error, action)\<close>, branch by branch.  The \<^verbatim>\<open>default\<close> case returns
  whatever \<^verbatim>\<open>detail\<close> or \<^verbatim>\<open>message\<close> holds, so the result is a value, not always a
  string.
\<close>

definition getErrorMessage :: "jserror \<Rightarrow> string \<Rightarrow> jserror + json" where
  "getErrorMessage error action =
     (if code error = Some ''ERR_NETWORK'' \<or> code error = Some ''ECONNABORTED'' then
        Inr (JStr ''Cannot connect to server. Please ensure the backend is running on http://127.0.0.1:8000'')
      else case response error of
        Some (status, data) \<Rightarrow>
          (if status = 401 then
             Inr (JStr ''Invalid email or password. Please check your credentials.'')
           else if status = 403 then
             (case opt_prop data ''detail'' of
                Some (JStr detail) \<Rightarrow>
                  if includes_str detail ''verify'' then
                    Inr (JStr ''Please verify your email to login.'')
                  else if includes_str detail ''inactive'' then
                    Inr (JStr ''Your account is inactive. Please contact support.'')
                  else Inr (JStr detail)
              | _ \<Rightarrow> Inr (JStr ''Your account is restricted.''))
           else if status = 404 then
             Inr (JStr (capitalize action @
                    '' service not found. Please check the server configuration.''))
           else if status = 409 then
             Inr (JStr ''This email is already registered. Please login instead.'')
           else if status = 422 then
             (case opt_prop data ''detail'' of
                Some (JArr validationErrors) \<Rightarrow>
                  (case validation_lines validationErrors of
                     Inl e \<Rightarrow> Inl e
                   | Inr ls \<Rightarrow> Inr (JStr (join '', '' ls)))
              | Some (JStr validationErrors) \<Rightarrow> Inr (JStr validationErrors)
              | _ \<Rightarrow>
                  Inr (JStr (''Invalid input. Please check your '' @
                         (if action = ''login'' then ''email and password'' else ''information'')
                         @ ''.'')))
           else if status = 500 then
             Inr (JStr ''Server error. Please try again in a moment.'')
           else
             Inr (js_or (opt_prop data ''detail'')
                    (js_or (opt_prop data ''message'')
                       (JStr (capitalize action @ '' failed. Please try again.'')))))
      | None \<Rightarrow>
          if message error \<noteq> [] then Inr (JStr (message error))
          else Inr (JStr (capitalize action @ '' failed. Please try again.'')))"

text \<open>
  The state of \<^verbatim>\<open>AuthProvider\<close>: the user snapshot (\<^verbatim>\<open>null\<close> when nobody is signed
  in) and the two loading flags.  Each operation runs on the provider's state and the
  browser's, given the outcome of the one request it sends.
\<close>

record auth =
  user :: json
  loading :: bool
  loginLoading :: bool

text \<open>\<^verbatim>\<open>{success: true, user}\<close> and \<^verbatim>\<open>{success: false, error}\<close>.\<close>

datatype result = Success json | Failure json

text \<open>The \<^verbatim>\<open>catch\<close> and \<^verbatim>\<open>finally\<close> of \<^verbatim>\<open>login\<close>.\<close>

definition login_catch ::
  "jserror \<Rightarrow> auth \<Rightarrow> world \<Rightarrow> (jserror + result) \<times> auth \<times> world" where
  "login_catch error a w =
     (case getErrorMessage error ''login'' of
        Inr errorMessage \<Rightarrow> (Inr (Failure errorMessage), a\<lparr>loginLoading := False\<rparr>, w)
      | Inl e \<Rightarrow> (Inl e, a\<lparr>loginLoading := False\<rparr>, w))"

definition login :: "outcome \<Rightarrow> auth \<Rightarrow> world \<Rightarrow> (jserror + result) \<times> auth \<times> world" where
  "login out a w =
     (let a1 = a\<lparr>loginLoading := True\<rparr> in
      case api_login out w of
        (Inr r, w1) \<Rightarrow>
          if r = JNull then login_catch (null_read ''access_token'') a1 w1
          else if truthy_opt (get_prop r ''access_token'') \<and> truthy_opt (get_prop r ''user'') then
            (case (get_prop r ''access_token'', get_prop r ''user'') of
               (Some t, Some u) \<Rightarrow>
                 let w2 = setItem ''access_token'' (Plain (toString_js t)) w1;
                     w3 = (case get_prop u ''id'' of
                             Some i \<Rightarrow> if truthy i
                                       then setItem ''user_id'' (Plain (toString_js i)) w2
                                       else w2
                           | None \<Rightarrow> w2)
                 in (Inr (Success u), a1\<lparr>user := u, loginLoading := False\<rparr>, w3)
             | _ \<Rightarrow> (Inr (Failure (JStr ''Invalid response from server'')),
                      a1\<lparr>loginLoading := False\<rparr>, w1))
          else (Inr (Failure (JStr ''Invalid response from server'')),
                a1\<lparr>loginLoading := False\<rparr>, w1)
      | (Inl e, w1) \<Rightarrow> login_catch e a1 w1)"



text \<open>
  \<^verbatim>\<open>checkAuthStatus\<close>: without a token it sends nothing; with one it keeps the response of
  ``get current user'' as the user, and on any error removes \<^verbatim>\<open>access_token\<close> and
  \<^verbatim>\<open>user_id\<close> and clears the user.
\<close>

definition checkAuthStatus :: "outcome \<Rightarrow> auth \<Rightarrow> world \<Rightarrow> auth \<times> world" where
  "checkAuthStatus out a w =
     (case getToken w of
        None \<Rightarrow> (a\<lparr>loading := False\<rparr>, w)
      | Some t \<Rightarrow>
          (case getCurrentUser out w of
             (Inr r, w1) \<Rightarrow> (a\<lparr>user := r, loading := False\<rparr>, w1)
           | (Inl e, w1) \<Rightarrow>
               (a\<lparr>user := JNull, loading := False\<rparr>,
                removeItem ''user_id'' (removeItem ''access_token'' w1))))"

text \<open>
  \<^verbatim>\<open>refreshUser\<close>: the response becomes the user and is returned; on an error it logs and
  returns \<^verbatim>\<open>null\<close>.
\<close>

definition refreshUser :: "outcome \<Rightarrow> auth \<Rightarrow> world \<Rightarrow> json \<times> auth \<times> world" where
  "refreshUser out a w =
     (case getCurrentUser out w of
        (Inr r, w1) \<Rightarrow> (r, a\<lparr>user := r\<rparr>, w1)
      | (Inl e, w1) \<Rightarrow> (JNull, a, w1))"

text \<open>
  \<^verbatim>\<open>logout\<close>: the request's error is ignored; the \<^verbatim>\<open>finally\<close> removes \<^verbatim>\<open>access_token\<close>
  and \<^verbatim>\<open>user_id\<close>, clears \<^verbatim>\<open>localStorage\<close>, clears the user and navigates to the root.
\<close>

definition logout :: "outcome \<Rightarrow> auth \<Rightarrow> world \<Rightarrow> auth \<times> world" where
  "logout out a w =
     (case api_logout out w of
        (r, w1) \<Rightarrow> (a\<lparr>user := JNull\<rparr>, w1\<lparr>localStorage := Map.empty, href := Some ''/''\<rparr>))"


section \<open>Campaign status polling\<close>

text \<open>
  \<^verbatim>\<open>FormSubmitterPage\<close> polls the status of the campaign it started from an effect:
  \<^verbatim>\<open>
  useEffect(() => {
    let statusInterval = null;
    if (processingCampaignId && !campaignStatus?.is_complete) {
      statusInterval = setInterval(async () => { ... }, 2000);
    }
    return () => { if (statusInterval) clearInterval(statusInterval); };
  }, [processingCampaignId, campaignStatus?.is_complete, statusCheckErrors, navigate]);
  \<close>
  The callback of an interval closes over the values of the render that created it: the
  campaign id, the error count and the interval's own id.  \<^verbatim>\<open>setInterval\<close> does
  not wait for an \<^verbatim>\<open>async\<close> callback, so a status request can still be awaiting its
  response when the next one is sent, or after its interval was cleared; the requests in
  flight are part of the state, each with the closure of the callback that sent it.
\<close>

record closure =
  cl_interval :: nat
  cl_campaign :: json
  cl_errors :: nat

datatype toast = ToastSuccess string | ToastError string

text \<open>
  The state of the page that the effect reads and writes, the active interval, the
  requests in flight, the number of status requests sent, and what the callback showed:
  toasts, and calls of \<^verbatim>\<open>navigate\<close> with their delay in milliseconds.
\<close>

record page =
  processingCampaignId :: json
  campaignStatus :: json
  statusCheckErrors :: nat
  error_state :: json
  success :: bool
  timer :: "closure option"
  next_interval :: nat
  in_flight :: "closure list"
  polls :: nat
  toasts :: "toast list"
  navigations :: "(string \<times> nat) list"

text \<open>
  The effect's dependencies (\<^verbatim>\<open>navigate\<close> is stable), compared as values:
  \<^verbatim>\<open>is_complete\<close> is a boolean in every status the page builds.
\<close>

definition deps :: "page \<Rightarrow> json \<times> json option \<times> nat" where
  "deps p = (processingCampaignId p, opt_prop (campaignStatus p) ''is_complete'',
             statusCheckErrors p)"

text \<open>The effect's body: whether it starts an interval, and with which closure.\<close>

definition run_effect :: "page \<Rightarrow> page" where
  "run_effect p =
     (if truthy (processingCampaignId p)
         \<and> \<not> truthy_opt (opt_prop (campaignStatus p) ''is_complete'')
      then p\<lparr>timer := Some \<lparr>cl_interval = next_interval p,
                             cl_campaign = processingCampaignId p,
                             cl_errors = statusCheckErrors p\<rparr>,
             next_interval := next_interval p + 1\<rparr>
      else p\<lparr>timer := None\<rparr>)"

text \<open>
  A render after the state changed from \<open>old\<close> to \<open>new\<close>: when a dependency changed,
  the cleanup of the previous effect clears its interval and the effect runs again.
\<close>

definition rerender :: "page \<Rightarrow> page \<Rightarrow> page" where
  "rerender old new = (if deps new = deps old then new else run_effect (new\<lparr>timer := None\<rparr>))"

text \<open>\<^verbatim>\<open>clearInterval(id)\<close> stops the interval with that id, if it is the active one.\<close>

definition clearInterval :: "nat \<Rightarrow> page \<Rightarrow> page" where
  "clearInterval i p =
     (if map_option cl_interval (timer p) = Some i then p\<lparr>timer := None\<rparr> else p)"

text \<open>The \<^verbatim>\<open>catch\<close> of the callback: the test reads the closure's count, not the new one.\<close>

definition on_error :: "closure \<Rightarrow> page \<Rightarrow> page" where
  "on_error c p =
     (let p1 = p\<lparr>statusCheckErrors := statusCheckErrors p + 1\<rparr> in
      if cl_errors c \<ge> 10
      then (clearInterval (cl_interval c) p1)
             \<lparr>error_state :=
                JStr ''Lost connection to campaign processing. Please check campaign list.'',
              toasts := toasts p1 @
                [ToastError ''Connection lost. Please check campaign status manually.'']\<rparr>
      else p1)"

text \<open>
  The \<^verbatim>\<open>try\<close> of the callback after the status arrived.  A \<^verbatim>\<open>null\<close> status makes
  \<^verbatim>\<open>status.is_complete\<close> raise after the first two setters ran, which lands in the
  \<^verbatim>\<open>catch\<close>.  So does the \<^verbatim>\<open>STOPPED\<close> branch: \<^verbatim>\<open>toast\<close> is the export of
  \<^verbatim>\<open>react-hot-toast\<close>, which has \<^verbatim>\<open>success\<close>, \<^verbatim>\<open>error\<close> and \<^verbatim>\<open>loading\<close> and no
  \<^verbatim>\<open>info\<close>, so \<^verbatim>\<open>toast.info(...)\<close> raises a TypeError after the interval was cleared and
  the campaign id reset, and the \<^verbatim>\<open>navigate\<close> after it is not reached.
\<close>

definition on_status :: "closure \<Rightarrow> json \<Rightarrow> page \<Rightarrow> page" where
  "on_status c status p =
     (let p1 = p\<lparr>campaignStatus := status, statusCheckErrors := 0\<rparr>;
          target = ''/campaigns/'' @ toString_js (cl_campaign c) in
      if status = JNull then on_error c p1
      else if truthy_opt (get_prop status ''is_complete'') then
        (let p2 = (clearInterval (cl_interval c) p1)\<lparr>processingCampaignId := JNull\<rparr> in
         if get_prop status ''status'' = Some (JStr ''COMPLETED'') then
           p2\<lparr>success := True,
              toasts := toasts p2 @ [ToastSuccess ''Campaign completed successfully!''],
              navigations := navigations p2 @ [(target, 2000)]\<rparr>
         else if get_prop status ''status'' = Some (JStr ''FAILED'') then
           (let errorMsg = js_or (get_prop status ''error_message'')
                             (JStr ''Campaign processing failed'') in
            p2\<lparr>error_state := errorMsg,
               toasts := toasts p2 @ [ToastError (toString_js errorMsg)]\<rparr>)
         else if get_prop status ''status'' = Some (JStr ''STOPPED'') then on_error c p2
         else p2)
      else p1)"

text \<open>
  The events of a polling run: the active interval fires and its callback sends a status
  request; the \<open>i\<close>-th request in flight settles with an outcome.
\<close>

datatype event = Tick | Settle nat outcome

definition step :: "event \<Rightarrow> page \<Rightarrow> page" where
  "step ev p =
     (case ev of
        Tick \<Rightarrow>
          (case timer p of
             None \<Rightarrow> p
           | Some c \<Rightarrow> p\<lparr>in_flight := in_flight p @ [c], polls := polls p + 1\<rparr>)
      | Settle i out \<Rightarrow>
          if i < length (in_flight p) then
            (let c = in_flight p ! i;
                 p1 = p\<lparr>in_flight := take i (in_flight p) @ drop (Suc i) (in_flight p)\<rparr>
             in rerender p1 (case out of
                               Fulfilled status \<Rightarrow> on_status c status p1
                             | Rejected e \<Rightarrow> on_error c p1))
          else p)"

fun run :: "event list \<Rightarrow> page \<Rightarrow> page" where
  "run [] p = p"
| "run (ev # evs) p = run evs (step ev p)"

text \<open>
  The page right after a campaign was started (\<^verbatim>\<open>handleSubmit\<close>): the campaign id is
  set, the local status is the initial one, and the effect has started its first interval.
\<close>

definition started :: "json \<Rightarrow> json option \<Rightarrow> page" where
  "started campaign_id total_urls =
     run_effect
       \<lparr>processingCampaignId = campaign_id,
        campaignStatus = JObj [(''campaign_id'', campaign_id),
                               (''total'', js_or total_urls (JNum ''0'')),
                               (''processed'', JNum ''0''),
                               (''successful'', JNum ''0''),
                               (''failed'', JNum ''0''),
                               (''status'', JStr ''PROCESSING''),
                               (''progress_percent'', JNum ''0''),
                               (''is_complete'', JBool False)],
        statusCheckErrors = 0,
        error_state = JNull,
        success = False,
        timer = None,
        next_interval = 1,
        in_flight = [],
        polls = 0,
        toasts = [],
        navigations = []\<rparr>"

section \<open>The push channel\<close>

text \<open>
  \<^verbatim>\<open>connectWebSocket\<close> of the API service returns the socket with its handlers set and a
  30-second ping interval stored on it as \<^verbatim>\<open>_pingInterval\<close>.  A channel is that
  socket as the service sees it: its ready state, whether the ping interval runs, the
  frames sent, and the messages handed to the caller's \<^verbatim>\<open>onMessage\<close>.
\<close>

datatype readyState = CONNECTING | OPEN | CLOSING | CLOSED

record channel =
  ws_path :: string
  ws_token :: stored
  ready :: readyState
  pingInterval :: bool
  frames :: "json list"
  delivered :: "json list"

definition ping :: json where
  "ping = JObj [(''type'', JStr ''ping'')]"

text \<open>
  Without a stored token the connection is not attempted and \<^verbatim>\<open>onError\<close> gets the error.
  The socket's URL is the base URL, the path and \<^verbatim>\<open>?token=<token>\<close>; the path and the
  token are kept.
\<close>

definition connectWebSocket :: "json \<Rightarrow> world \<Rightarrow> jserror + channel" where
  "connectWebSocket campaignId w =
     (case getToken w of
        None \<Rightarrow> Inl (new_Error ''No authentication token'')
      | Some t \<Rightarrow>
          Inr \<lparr>ws_path = (if truthy campaignId
                          then ''/api/ws/campaign/'' @ toString_js campaignId
                          else ''/api/ws''),
               ws_token = t,
               ready = CONNECTING, pingInterval = True, frames = [], delivered = []\<rparr>)"

text \<open>The socket opens: \<^verbatim>\<open>onopen\<close> sends the first ping.\<close>

definition ws_open :: "channel \<Rightarrow> channel" where
  "ws_open ch =
     (if ready ch = CONNECTING then ch\<lparr>ready := OPEN, frames := frames ch @ [ping]\<rparr> else ch)"





text \<open>
  The hook \<^verbatim>\<open>useCampaignWebSocket\<close> opens its own socket and keeps the last message as
  \<^verbatim>\<open>stats\<close>; only its cleanup closes the socket.
\<close>

record hook =
  stats :: json
  connected :: bool
  hook_ready :: readyState



section \<open>The owner dashboard's fetch\<close>

text \<open>
  \<^verbatim>\<open>fetchDashboardData(forceRefresh)\<close> is an \<^verbatim>\<open>async\<close> function with two awaits: the
  analytics request, then six supporting requests awaited together.  A call that passed
  the guard is a batch; it is suspended at one of the awaits until its requests settle.
  Each request takes its abort signal from \<^verbatim>\<open>abortControllerRef.current\<close> at the moment
  \<^verbatim>\<open>fetchAPI\<close> is called.
\<close>

datatype phase = AwaitAnalytics | AwaitSupport | Finished

record batch =
  b_phase :: phase
  b_signal :: "nat option"
  b_days :: nat
  b_analytics :: json

text \<open>
  How a \<^verbatim>\<open>fetch\<close> that was not aborted ends: a response with its status, its
  status text and its body text parsed (\<open>None\<close> for an empty text), or no response.
  The text is taken to be JSON when it is not empty.
\<close>

datatype fetched = Http nat string "json option" | Unreachable string

record fetch =
  endpoint :: string
  signal :: "nat option"

text \<open>
  The refs and state of \<^verbatim>\<open>OwnerDashboard\<close> that the fetch touches.  Abort controllers
  are numbered as they are created; \<open>aborted\<close> lists those whose \<^verbatim>\<open>abort()\<close> was
  called.  The seven setters at the end of a batch are called together with values
  computed from \<^verbatim>\<open>analyticsData\<close> and \<^verbatim>\<open>dataMap\<close>; \<open>shown\<close> keeps that pair for the
  last batch that wrote (the formatting of the values is not modelled).
\<close>

record dash =
  abortControllerRef :: "nat option"
  aborted :: "nat list"
  next_controller :: nat
  isLoadingRef :: bool
  lastFetchTimeRef :: int
  mountedRef :: bool
  dash_loading :: bool
  dash_error :: json
  selectedPeriod :: string
  batches :: "batch list"
  fetches :: "fetch list"
  shown :: "(json \<times> json list) option"
  notifications :: "string list"
  browser :: world

definition getDaysFromPeriod :: "string \<Rightarrow> nat" where
  "getDaysFromPeriod period =
     (if period = ''today'' then 1
      else if period = ''week'' then 7
      else if period = ''month'' then 30
      else if period = ''year'' then 365
      else 30)"

text \<open>
  \<^verbatim>\<open>fetchAPI\<close> once its \<^verbatim>\<open>fetch\<close> settled.  An aborted request returns \<^verbatim>\<open>null\<close>
  (``Don't throw for aborted requests''); a 401 removes the token and navigates to the
  root before it throws; an empty body returns \<^verbatim>\<open>null\<close>.
\<close>

definition fetchAPI_settled :: "bool \<Rightarrow> fetched \<Rightarrow> world \<Rightarrow> (jserror + json) \<times> world" where
  "fetchAPI_settled was_aborted f w =
     (if was_aborted then (Inr JNull, w)
      else case f of
        Http status statusText body \<Rightarrow>
          if \<not> (200 \<le> status \<and> status \<le> 299) then
            (if status = 401
             then (Inl (new_Error ''Authentication required''),
                   (removeItem ''access_token'' w)\<lparr>href := Some ''/''\<rparr>)
             else (Inl (new_Error (''API Error: '' @ show_nat status @ '' - '' @ statusText)), w))
          else (case body of None \<Rightarrow> (Inr JNull, w) | Some j \<Rightarrow> (Inr j, w))
      | Unreachable m \<Rightarrow> (Inl (new_Error m), w))"

text \<open>The \<^verbatim>\<open>finally\<close> of \<^verbatim>\<open>fetchDashboardData\<close>.\<close>

definition finally_dash :: "dash \<Rightarrow> dash" where
  "finally_dash d =
     (let d1 = d\<lparr>isLoadingRef := False\<rparr>
      in if mountedRef d1 then d1\<lparr>dash_loading := False\<rparr> else d1)"

definition support_endpoints :: "nat \<Rightarrow> string list" where
  "support_endpoints days =
     [''/api/analytics/daily-stats?days='' @ show_nat days,
      ''/api/analytics/performance?limit=10&time_range='' @ show_nat days,
      ''/api/campaigns?limit=10'',
      ''/api/admin/users?page=1&per_page=10'',
      ''/api/analytics/revenue?days='' @ show_nat days,
      ''/api/admin/metrics'']"

text \<open>\<^verbatim>\<open>fetchAPI(endpoint)\<close> up to its \<^verbatim>\<open>await fetch\<close>: the request leaves with the signal
  of the controller that is current now.\<close>

definition issue :: "string \<Rightarrow> dash \<Rightarrow> dash" where
  "issue e d = d\<lparr>fetches := fetches d @ [\<lparr>endpoint = e, signal = abortControllerRef d\<rparr>]\<rparr>"

text \<open>
  The call itself, up to its first await: the guard, the abort of the controller in the
  ref, the new controller, and the analytics request.
\<close>

definition fetchDashboardData :: "bool \<Rightarrow> int \<Rightarrow> dash \<Rightarrow> dash" where
  "fetchDashboardData forceRefresh now d =
     (let timeSinceLastFetch = now - lastFetchTimeRef d in
      if \<not> forceRefresh \<and> (isLoadingRef d \<or> timeSinceLastFetch < 1000) then d
      else
        (let d1 = (case abortControllerRef d of
                     Some c \<Rightarrow> d\<lparr>aborted := c # aborted d\<rparr>
                   | None \<Rightarrow> d);
             c' = next_controller d1;
             d2 = d1\<lparr>abortControllerRef := Some c', next_controller := c' + 1,
                     isLoadingRef := True, lastFetchTimeRef := now\<rparr>
         in if \<not> mountedRef d2 then d2
            else
              (let d3 = d2\<lparr>dash_loading := True, dash_error := JNull\<rparr>;
                   days = getDaysFromPeriod (selectedPeriod d3)
               in case getToken (browser d3) of
                    None \<Rightarrow>
                      finally_dash
                        (d3\<lparr>dash_error := JStr ''Authentication required. Please login again.''\<rparr>)
                  | Some t \<Rightarrow>
                      (issue (''/api/analytics/user?include_detailed=true&days='' @ show_nat days) d3)
                        \<lparr>batches := batches d3 @
                           [\<lparr>b_phase = AwaitAnalytics, b_signal = Some c', b_days = days,
                             b_analytics = JNull\<rparr>]\<rparr>)))"

text \<open>Whether the signal a request left with has been aborted since.\<close>

definition was_aborted :: "nat option \<Rightarrow> dash \<Rightarrow> bool" where
  "was_aborted sig d = (case sig of Some c \<Rightarrow> c \<in> set (aborted d) | None \<Rightarrow> False)"

definition displayNotification :: "string \<Rightarrow> dash \<Rightarrow> dash" where
  "displayNotification m d =
     (if mountedRef d then d\<lparr>notifications := notifications d @ [m]\<rparr> else d)"

text \<open>
  Batch \<open>b\<close> resumes after its analytics request settled.  A raised error is reported
  and leaves \<^verbatim>\<open>analyticsData\<close> \<^verbatim>\<open>null\<close>; either way the batch goes on, unless the
  component was unmounted, and sends the six supporting requests.
\<close>

definition analytics_settled :: "nat \<Rightarrow> fetched \<Rightarrow> dash \<Rightarrow> dash" where
  "analytics_settled b f d =
     (if b < length (batches d) \<and> b_phase (batches d ! b) = AwaitAnalytics then
        (let bt = batches d ! b;
             (r, w1) = fetchAPI_settled (was_aborted (b_signal bt) d) f (browser d);
             d1 = d\<lparr>browser := w1\<rparr>
         in if \<not> mountedRef d1 then
              finally_dash (d1\<lparr>batches := (batches d1)[b := bt\<lparr>b_phase := Finished\<rparr>]\<rparr>)
            else
              (let analyticsData = (case r of Inr j \<Rightarrow> j | Inl e \<Rightarrow> JNull);
                   d2 = (case r of
                           Inr j \<Rightarrow> d1
                         | Inl e \<Rightarrow>
                             displayNotification
                               (''Failed to load analytics data: '' @ message e) d1);
                   d3 = fold issue (support_endpoints (b_days bt)) d2
               in d3\<lparr>batches := (batches d3)
                        [b := bt\<lparr>b_phase := AwaitSupport,
                                 b_signal := abortControllerRef d3,
                                 b_analytics := analyticsData\<rparr>]\<rparr>))
      else d)"

text \<open>
  The six supporting requests of a batch settle, in the order of
  \<open>support_endpoints\<close>; a request that threw leaves \<^verbatim>\<open>null\<close> in \<^verbatim>\<open>dataMap\<close>.
\<close>

fun settle_all :: "bool \<Rightarrow> fetched list \<Rightarrow> world \<Rightarrow> json list \<times> world" where
  "settle_all ab [] w = ([], w)"
| "settle_all ab (f # fs) w =
     (let (r, w1) = fetchAPI_settled ab f w;
          (rs, w2) = settle_all ab fs w1
      in ((case r of Inr j \<Rightarrow> j | Inl e \<Rightarrow> JNull) # rs, w2))"

text \<open>
  Batch \<open>b\<close> resumes after \<^verbatim>\<open>Promise.allSettled\<close>.  Between the await and the
  setters the code formats the values; that code is not modelled: it either yields the
  values, which the setters then write, or throws (\<open>raised\<close> is the message), and then
  the \<^verbatim>\<open>catch\<close> sets the error and a notification and nothing is written.
\<close>

definition support_settled :: "nat \<Rightarrow> fetched list \<Rightarrow> string option \<Rightarrow> dash \<Rightarrow> dash" where
  "support_settled b fs raised d =
     (if b < length (batches d) \<and> b_phase (batches d ! b) = AwaitSupport \<and> length fs = 6 then
        (let bt = batches d ! b;
             (dataMap, w1) = settle_all (was_aborted (b_signal bt) d) fs (browser d);
             d1 = d\<lparr>browser := w1, batches := (batches d)[b := bt\<lparr>b_phase := Finished\<rparr>]\<rparr>
         in if \<not> mountedRef d1 then finally_dash d1
            else case raised of
                   None \<Rightarrow> finally_dash (d1\<lparr>shown := Some (b_analytics bt, dataMap)\<rparr>)
                 | Some m \<Rightarrow>
                     finally_dash
                       (displayNotification ''Failed to load dashboard data. Please try again.''
                          (d1\<lparr>dash_error := JStr (''Failed to load dashboard data: '' @ m)\<rparr>)))
      else d)"

text \<open>
  The cleanup of the mount effect.  React runs it when the component is removed, also
  when it removes the component because rendering or an effect threw.
\<close>

definition unmount :: "dash \<Rightarrow> dash" where
  "unmount d =
     (let d1 = d\<lparr>mountedRef := False\<rparr>
      in case abortControllerRef d1 of
           Some c \<Rightarrow> d1\<lparr>aborted := c # aborted d1\<rparr>
         | None \<Rightarrow> d1)"

text \<open>
  What the component renders: the loading screen while \<^verbatim>\<open>loading\<close> is true; else,
  when \<^verbatim>\<open>error\<close> is truthy, the error screen, with the Retry button; else the main
  screen, with the four period buttons and the refresh button.
\<close>

datatype screen = LoadingScreen | ErrorScreen | MainScreen

definition screen_of :: "dash \<Rightarrow> screen" where
  "screen_of d =
     (if dash_loading d then LoadingScreen
      else if truthy (dash_error d) then ErrorScreen
      else MainScreen)"

text \<open>
  The fetch effect, which runs after the first render and after a render in which
  \<^verbatim>\<open>selectedPeriod\<close> changed.  Its debug log evaluates
  \<^verbatim>\<open>userInfo ? JSON.parse(userInfo) : null\<close> on the stored \<^verbatim>\<open>user_info\<close>, which throws
  on a text that is not JSON; \<open>is_json\<close> says which plain strings are JSON texts, and
  \<^verbatim>\<open>JSON.stringify(undefined)\<close> is stored as the text \<^verbatim>\<open>undefined\<close>, which is not.
  Without a token the effect sets the error and ends the loading; otherwise it calls
  \<^verbatim>\<open>fetchDashboardData()\<close>, not forced.
\<close>

definition userInfo_parses :: "(string \<Rightarrow> bool) \<Rightarrow> world \<Rightarrow> bool" where
  "userInfo_parses is_json w =
     (case localStorage w ''user_info'' of
        None \<Rightarrow> True
      | Some (Plain t) \<Rightarrow> t = [] \<or> is_json t
      | Some (Stringified None) \<Rightarrow> False
      | Some (Stringified (Some v)) \<Rightarrow> True)"

definition fetch_effect :: "(string \<Rightarrow> bool) \<Rightarrow> int \<Rightarrow> dash \<Rightarrow> dash" where
  "fetch_effect is_json now d =
     (if \<not> userInfo_parses is_json (browser d) then unmount d
      else case getToken (browser d) of
             None \<Rightarrow> d\<lparr>dash_error := JStr ''Please login to view dashboard'',
                       dash_loading := False\<rparr>
           | Some t \<Rightarrow> fetchDashboardData False now d)"

text \<open>\<^verbatim>\<open>handleRefresh\<close>, the click handler of the Retry and of the refresh button.\<close>

definition handleRefresh :: "int \<Rightarrow> dash \<Rightarrow> dash" where
  "handleRefresh now d = fetchDashboardData True now d"

text \<open>
  What happens to a mounted dashboard: a click on Retry or on the refresh button, which
  exist on the error screen and on the main screen; a click on a period button, which
  exists on the main screen, where a changed period runs the fetch effect (the clock reads
  \<open>now\<close>); a request of a batch settles; the component is removed.  The screen is taken
  to show the current state: React renders the state set during a click before it handles
  the next one.  \<^verbatim>\<open>fetchDashboardData\<close> has no other caller than the effect and
  \<^verbatim>\<open>handleRefresh\<close>.
\<close>

datatype dash_event =
    Refresh int
  | SelectPeriod string int
  | AnalyticsSettled nat fetched
  | SupportSettled nat "fetched list" "string option"
  | Unmount

fun dash_step :: "(string \<Rightarrow> bool) \<Rightarrow> dash_event \<Rightarrow> dash \<Rightarrow> dash" where
  "dash_step is_json (Refresh now) d =
     (if mountedRef d \<and> screen_of d \<noteq> LoadingScreen then handleRefresh now d else d)"
| "dash_step is_json (SelectPeriod period now) d =
     (if mountedRef d \<and> screen_of d = MainScreen
         \<and> period \<in> set [''today'', ''week'', ''month'', ''year'']
         \<and> period \<noteq> selectedPeriod d
      then fetch_effect is_json now (d\<lparr>selectedPeriod := period\<rparr>)
      else d)"
| "dash_step is_json (AnalyticsSettled b f) d = analytics_settled b f d"
| "dash_step is_json (SupportSettled b fs raised) d = support_settled b fs raised d"
| "dash_step is_json Unmount d = (if mountedRef d then unmount d else d)"


text \<open>
  The component at its first render in a browser \<open>w\<close>, and after its effects ran at
  time \<open>now\<close>: the mount effect sets \<^verbatim>\<open>mountedRef\<close>, the fetch effect follows.
\<close>

definition first_render :: "world \<Rightarrow> dash" where
  "first_render w =
     \<lparr>abortControllerRef = None, aborted = [], next_controller = 1,
      isLoadingRef = False, lastFetchTimeRef = 0, mountedRef = True,
      dash_loading = True, dash_error = JNull, selectedPeriod = ''month'',
      batches = [], fetches = [], shown = None, notifications = [],
      browser = w\<rparr>"

definition mount :: "(string \<Rightarrow> bool) \<Rightarrow> int \<Rightarrow> world \<Rightarrow> dash" where
  "mount is_json now w = fetch_effect is_json now (first_render w)"

section \<open>Derived notions and example states\<close>


text \<open>The provider and the browser before anybody signed in, and a browser with a token.\<close>

definition no_session :: auth where
  "no_session = \<lparr>user = JNull, loading = True, loginLoading = False\<rparr>"

definition empty_browser :: world where
  "empty_browser = \<lparr>localStorage = Map.empty, href = None, sent = []\<rparr>"

definition with_token :: "string \<Rightarrow> world" where
  "with_token tok = setItem ''access_token'' (Plain tok) empty_browser"

text \<open>
  The provider and the browser after a successful \<^verbatim>\<open>login\<close> whose response is
  \<^verbatim>\<open>{"access_token": "tok", "user": {"id": 7, "role": "user"}}\<close>.
\<close>

definition signed_in :: "auth \<times> world" where
  "signed_in =
     snd (login (Fulfilled (JObj [(''access_token'', JStr ''tok''),
                                  (''user'', JObj [(''id'', JNum ''7''), (''role'', JStr ''user'')])]))
            no_session empty_browser)"

text \<open>The HTTP client's errors for a 500 and a 401 response with a JSON body.\<close>

definition e500 :: jserror where
  "e500 = \<lparr>code = Some ''ERR_BAD_RESPONSE'',
            message = ''Request failed with status code 500'',
            response = Some (500, JObj [(''detail'', JStr ''Database unavailable'')])\<rparr>"

definition e401 :: jserror where
  "e401 = \<lparr>code = Some ''ERR_BAD_REQUEST'',
            message = ''Request failed with status code 401'',
            response = Some (401, JObj [(''detail'', JStr ''Token expired'')])\<rparr>"

text \<open>
  The condition under which the polling effect starts an interval, and three shapes of
  the page: \<open>consistent\<close>, an interval runs only where the effect would start one;
  \<open>polling\<close>, the effect's interval runs with the current error count in its closure
  and no request in flight; \<open>stopped\<close>, no campaign is being processed and no interval
  runs.
\<close>

definition effect_cond :: "page \<Rightarrow> bool" where
  "effect_cond p =
     (truthy (processingCampaignId p)
      \<and> \<not> truthy_opt (opt_prop (campaignStatus p) ''is_complete''))"


definition polling :: "page \<Rightarrow> bool" where
  "polling p =
     (effect_cond p \<and> in_flight p = []
      \<and> map_option cl_errors (timer p) = Some (statusCheckErrors p))"


text \<open>\<open>n\<close> status checks in a row, each sent by the interval and each failing with \<open>e\<close>.\<close>

definition failures :: "nat \<Rightarrow> jserror \<Rightarrow> event list" where
  "failures n e = concat (replicate n [Tick, Settle 0 (Rejected e)])"

text \<open>The page after campaign 42 with 100 URLs was started, and two status reports.\<close>

definition campaign42 :: page where
  "campaign42 = started (JNum ''42'') (Some (JNum ''100''))"

definition completed_status :: json where
  "completed_status = JObj [(''status'', JStr ''COMPLETED''), (''is_complete'', JBool True)]"

definition running_status :: json where
  "running_status = JObj [(''status'', JStr ''PROCESSING''), (''is_complete'', JBool False)]"

text \<open>
  An open channel for campaign 42, an open socket of the hook, and two
  \<^verbatim>\<open>campaign_update\<close> messages.
\<close>

definition open_channel :: channel where
  "open_channel =
     \<lparr>ws_path = ''/api/ws/campaign/42'', ws_token = Plain ''tok'', ready = OPEN,
      pingInterval = True, frames = [ping], delivered = []\<rparr>"




text \<open>
  A dashboard mounted at time 5000 in a browser that holds a token, answers of the
  backend, and a run: the first batch settles, the user clicks the refresh button at time
  9000, and the batch of the refresh settles.
\<close>

definition no_json :: "string \<Rightarrow> bool" where
  "no_json t = False"

definition mounted_dash :: dash where
  "mounted_dash = mount no_json 5000 (with_token ''tok'')"

definition ok :: "json \<Rightarrow> fetched" where
  "ok j = Http 200 ''OK'' (Some j)"

definition analytics_body :: json where
  "analytics_body = JObj [(''campaigns_count'', JNum ''3''), (''total_submissions'', JNum ''120'')]"

definition refreshed_body :: json where
  "refreshed_body = JObj [(''campaigns_count'', JNum ''4''), (''total_submissions'', JNum ''150'')]"

definition six_bodies :: "fetched list" where
  "six_bodies = replicate 6 (ok (JObj []))"



section \<open>Properties of the route guard\<close>

text \<open>
  C1, as amended.  For a signed-in user whose role is not in a route's non-empty
  \<open>allowedRoles\<close>, the guard with \<open>getDefaultPathForRole\<close> redirects to the default
  path of the user's role (owner to \<^verbatim>\<open>/owner\<close>, admin to \<^verbatim>\<open>/admin\<close>, any other role
  to \<^verbatim>\<open>/dashboard\<close>), and the guard of \<^verbatim>\<open>src/frontend/src/App.jsx\<close> redirects to
  \<^verbatim>\<open>/dashboard\<close> whatever the role.  Neither remembers the path.
\<close>

theorem route_guard_role_mismatch:
  assumes "truthy u" and "allowedRoles \<noteq> []"
    and "\<not> includes_role allowedRoles (get_prop u ''role'')"
  shows "ProtectedRoute u allowedRoles requiresContactInfo pathname ss
           = (Navigate (getDefaultPathForRole (get_prop u ''role'')), ss)
       \<and> ProtectedRoute_App u allowedRoles requiresContactInfo pathname ss
           = (Navigate ''/dashboard'', ss)
       \<and> getDefaultPathForRole (Some (JStr ''owner'')) = ''/owner''
       \<and> getDefaultPathForRole (Some (JStr ''admin'')) = ''/admin''
       \<and> (get_prop u ''role'' \<noteq> Some (JStr ''owner'')
            \<and> get_prop u ''role'' \<noteq> Some (JStr ''admin'')
            \<longrightarrow> getDefaultPathForRole (get_prop u ''role'') = ''/dashboard'')"
  using assms by (simp add: ProtectedRoute_def ProtectedRoute_App_def getDefaultPathForRole_def)

theorem route_guard_role_mismatch_witness:
  "truthy (JObj [(''role'', JStr ''admin'')]) \<and> [''owner''] \<noteq> []
   \<and> \<not> includes_role [''owner''] (get_prop (JObj [(''role'', JStr ''admin'')]) ''role'')
   \<and> ProtectedRoute (JObj [(''role'', JStr ''admin'')]) [''owner''] False ''/owner'' Map.empty
         = (Navigate ''/admin'', Map.empty)
   \<and> ProtectedRoute_App (JObj [(''role'', JStr ''admin'')]) [''owner''] False ''/owner'' Map.empty
         = (Navigate ''/dashboard'', Map.empty)"
  using route_guard_role_mismatch
          [of "JObj [(''role'', JStr ''admin'')]" "[''owner'']" False "''/owner''" Map.empty]
  by (simp add: getDefaultPathForRole_def)

text \<open>
  C1 as stated fails on the guard of \<^verbatim>\<open>src/frontend/src/App.jsx\<close>: an admin who opens
  the owner's route is sent to \<^verbatim>\<open>/dashboard\<close>, not to \<^verbatim>\<open>/admin\<close>.
\<close>

theorem route_guard_App_counterexample:
  "truthy (JObj [(''role'', JStr ''admin'')]) \<and> [''owner''] \<noteq> []
   \<and> \<not> includes_role [''owner''] (get_prop (JObj [(''role'', JStr ''admin'')]) ''role'')
   \<and> getDefaultPathForRole (get_prop (JObj [(''role'', JStr ''admin'')]) ''role'') = ''/admin''
   \<and> fst (ProtectedRoute_App (JObj [(''role'', JStr ''admin'')]) [''owner''] False ''/owner''
            Map.empty) = Navigate ''/dashboard''"
  by (simp add: ProtectedRoute_App_def getDefaultPathForRole_def)

section \<open>Properties of login\<close>

text \<open>
  An error that reaches the \<^verbatim>\<open>catch\<close> of \<^verbatim>\<open>login\<close> through \<^verbatim>\<open>makeRequest\<close> either has no
  response or has a response with a falsy body: a response with a truthy body was
  replaced by a plain \<^verbatim>\<open>Error\<close>.
\<close>

lemma makeRequest_error_shape:
  assumes "fst (makeRequest m u out w) = Inl e"
  shows "response e = None \<or> (\<exists>status d. response e = Some (status, d) \<and> \<not> truthy d)"
  using assms
  by (auto simp: makeRequest_def axiosInstance_def new_Error_def Let_def
           split: outcome.splits option.splits if_splits prod.splits)

lemma api_login_error:
  assumes "fst (api_login out w) = Inl e"
  shows "fst (makeRequest ''post'' ''/api/auth/login'' out w) = Inl e"
  using assms
  by (auto simp: api_login_def split: prod.splits sum.splits option.splits if_splits)

lemma getErrorMessage_no_body:
  assumes "response e = Some (status, d)" and "\<not> truthy d"
  shows "\<exists>m. getErrorMessage e action = Inr m"
proof -
  have "opt_prop d k = None" for k
    using assms(2) by (cases d) (simp_all add: opt_prop_def)
  then show ?thesis
    using assms(1) by (simp add: getErrorMessage_def)
qed

lemma getErrorMessage_no_response:
  assumes "response e = None"
  shows "\<exists>m. getErrorMessage e action = Inr m"
  using assms by (simp add: getErrorMessage_def)

lemma login_catch_returns:
  assumes "response e = None \<or> (\<exists>status d. response e = Some (status, d) \<and> \<not> truthy d)"
  shows "\<exists>r. fst (login_catch e a w) = Inr (Failure r)"
proof -
  obtain m where "getErrorMessage e ''login'' = Inr m"
    using assms getErrorMessage_no_body getErrorMessage_no_response by blast
  then show ?thesis by (simp add: login_catch_def)
qed

text \<open>
  \<^verbatim>\<open>login\<close> never raises: whatever the request's outcome, it returns a result.  (The one
  place where \<^verbatim>\<open>getErrorMessage\<close> can raise, a \<^verbatim>\<open>null\<close> entry in a 422 detail array,
  is out of reach: such a body is truthy.)
\<close>

lemma login_never_raises: "\<exists>r. fst (login out a w) = Inr r"
proof (cases "api_login out w")
  case (Pair res w1)
  show ?thesis
  proof (cases res)
    case (Inl e)
    with Pair have "fst (api_login out w) = Inl e" by simp
    then have "response e = None \<or> (\<exists>status d. response e = Some (status, d) \<and> \<not> truthy d)"
      using api_login_error makeRequest_error_shape by blast
    then obtain r where "fst (login_catch e (a\<lparr>loginLoading := True\<rparr>) w1) = Inr (Failure r)"
      using login_catch_returns by blast
    with Pair Inl show ?thesis by (simp add: login_def)
  next
    case (Inr r)
    have "response (null_read ''access_token'') = None"
      by (simp add: null_read_def new_Error_def)
    then obtain x where
      "fst (login_catch (null_read ''access_token'') (a\<lparr>loginLoading := True\<rparr>) w1)
         = Inr (Failure x)"
      using login_catch_returns by blast
    with Pair Inr show ?thesis
      by (auto simp: login_def Let_def split: option.splits)
  qed
qed

text \<open>
  \<^verbatim>\<open>getErrorMessage\<close> does map a 401 to the fixed sentence, when the error it is given
  still carries the response.
\<close>

lemma getErrorMessage_401:
  assumes "response e = Some (401, d)"
    and "code e \<noteq> Some ''ERR_NETWORK''" and "code e \<noteq> Some ''ECONNABORTED''"
  shows "getErrorMessage e action
           = Inr (JStr ''Invalid email or password. Please check your credentials.'')"
  using assms by (simp add: getErrorMessage_def)

text \<open>
  C2.  The claim: a login that fails with HTTP 401 returns exactly ``Invalid email or
  password. Please check your credentials.''  The code at a 401 whose body is
  \<^verbatim>\<open>{"detail": "Incorrect email or password"}\<close>: \<^verbatim>\<open>makeRequest\<close> has replaced the error by
  \<^verbatim>\<open>new Error(detail)\<close>, which has no \<^verbatim>\<open>response\<close>, so \<^verbatim>\<open>getErrorMessage\<close> never reaches
  its 401 case and \<^verbatim>\<open>login\<close> returns the backend's own wording.
\<close>

theorem login_401_with_detail:
  "fst (login (Rejected \<lparr>code = Some ''ERR_BAD_REQUEST'',
                         message = ''Request failed with status code 401'',
                         response = Some (401, JObj [(''detail'',
                                      JStr ''Incorrect email or password'')])\<rparr>) a w)
     = Inr (Failure (JStr ''Incorrect email or password''))"
  by (simp add: login_def api_login_def makeRequest_def axiosInstance_def login_catch_def
        getErrorMessage_def new_Error_def Let_def)

text \<open>Only a 401 with a falsy body (an empty one) gets the fixed sentence.\<close>

lemma login_401_empty_body:
  "fst (login (Rejected \<lparr>code = Some ''ERR_BAD_REQUEST'',
                         message = ''Request failed with status code 401'',
                         response = Some (401, JStr [])\<rparr>) a w)
     = Inr (Failure (JStr ''Invalid email or password. Please check your credentials.''))"
  by (simp add: login_def api_login_def makeRequest_def axiosInstance_def login_catch_def
        getErrorMessage_def new_Error_def Let_def)

section \<open>Properties of the API service\<close>



lemma makeRequest_world:
  "snd (makeRequest m u out w) = snd (axiosInstance m u out w)"
  by (auto simp: makeRequest_def split: prod.splits sum.splits option.splits)




text \<open>What the response interceptor does at a 401, for every request.\<close>

lemma unauthorized_clears:
  assumes "map_option fst (response e) = Some 401"
  shows "localStorage (snd (axiosInstance m u (Rejected e) w))
           = (localStorage w)(''access_token'' := None, ''user_info'' := None)
       \<and> href (snd (axiosInstance m u (Rejected e) w)) = Some ''/''"
  using assms by (simp add: axiosInstance_def removeItem_def Let_def)

lemma signed_in_storage:
  "localStorage (snd signed_in)
     = [''user_info'' \<mapsto> Stringified (Some (JObj [(''id'', JNum ''7''), (''role'', JStr ''user'')])),
        ''access_token'' \<mapsto> Plain ''tok'',
        ''user_id'' \<mapsto> Plain ''7'']"
  by (simp add: signed_in_def login_def api_login_def makeRequest_def axiosInstance_def Let_def
        setItem_def digit_def no_session_def empty_browser_def)

text \<open>
  C4.  The claim: a 401 destroys the persisted credential in full, the token and the
  user and user-id entries written at login.  The code after a login that stored
  \<^verbatim>\<open>access_token\<close>, \<^verbatim>\<open>user_info\<close> and \<^verbatim>\<open>user_id\<close>, at a 401 on the next request: the
  interceptor removes \<^verbatim>\<open>access_token\<close> and \<^verbatim>\<open>user_info\<close> and navigates to the root, and
  \<^verbatim>\<open>user_id\<close> stays in storage.  (\<^verbatim>\<open>logout\<close> and the \<^verbatim>\<open>catch\<close> of
  \<^verbatim>\<open>checkAuthStatus\<close> do remove \<^verbatim>\<open>user_id\<close>.)
\<close>

theorem unauthorized_leaves_user_id:
  "localStorage (snd signed_in) ''access_token'' = Some (Plain ''tok'')
   \<and> localStorage (snd signed_in) ''user_id'' = Some (Plain ''7'')
   \<and> localStorage (snd (getCurrentUser (Rejected e401) (snd signed_in))) ''access_token'' = None
   \<and> localStorage (snd (getCurrentUser (Rejected e401) (snd signed_in))) ''user_info'' = None
   \<and> href (snd (getCurrentUser (Rejected e401) (snd signed_in))) = Some ''/''
   \<and> localStorage (snd (getCurrentUser (Rejected e401) (snd signed_in))) ''user_id''
       = Some (Plain ''7'')"
  by (simp add: signed_in_storage getCurrentUser_def makeRequest_world unauthorized_clears
        e401_def)

text \<open>The sibling paths: \<^verbatim>\<open>logout\<close> leaves nothing in storage.\<close>

lemma logout_clears_storage:
  "localStorage (snd (logout out a w)) = Map.empty \<and> user (fst (logout out a w)) = JNull
   \<and> href (snd (logout out a w)) = Some ''/''"
  by (simp add: logout_def split: prod.splits)

lemma checkAuthStatus_failure_removes_user_id:
  assumes "getToken w \<noteq> None"
  shows "localStorage (snd (checkAuthStatus (Rejected e) a w)) ''user_id'' = None
       \<and> localStorage (snd (checkAuthStatus (Rejected e) a w)) ''access_token'' = None
       \<and> user (fst (checkAuthStatus (Rejected e) a w)) = JNull"
  using assms
  by (auto simp: checkAuthStatus_def getCurrentUser_def makeRequest_def axiosInstance_def
                 removeItem_def Let_def
           split: option.splits prod.splits sum.splits if_splits)

lemma analytics_defaults_key:
  assumes "k \<in> set summary_fields"
  shows "map_of (analytics_defaults r) k = Some (js_or (get_prop r k) (JNum ''0''))"
  using assms by (auto simp: summary_fields_def analytics_defaults_def)

lemma analytics_failed_key:
  assumes "k \<in> set summary_fields"
  shows "map_of analytics_failed k = Some (JNum ''0'')"
  using assms by (auto simp: summary_fields_def analytics_failed_def)

text \<open>
  C10, as amended.  \<^verbatim>\<open>getUserAnalytics\<close> never rejects (it returns an object on every
  path).  For a response that is an object, each summary field of the result is 0 when
  the response has no such field, the response's number when the response gives a
  number, and the response's own value whenever that value is truthy.  For a failed
  request, and for a \<^verbatim>\<open>null\<close> response, the result is the failure object: every summary
  field 0 and \<^verbatim>\<open>error\<close> true.
\<close>

theorem getUserAnalytics_fields:
  assumes "k \<in> set summary_fields"
  shows "(map_of kvs k = None
            \<longrightarrow> fst (getUserAnalytics (Fulfilled (JObj kvs)) w) k = Some (JNum ''0''))
       \<and> (\<forall>n. map_of kvs k = Some (JNum n)
               \<longrightarrow> fst (getUserAnalytics (Fulfilled (JObj kvs)) w) k = Some (JNum n))
       \<and> (\<forall>v. map_of kvs k = Some v \<and> truthy v
               \<longrightarrow> fst (getUserAnalytics (Fulfilled (JObj kvs)) w) k = Some v)
       \<and> fst (getUserAnalytics (Fulfilled JNull) w) = map_of analytics_failed
       \<and> fst (getUserAnalytics (Rejected e) w) = map_of analytics_failed
       \<and> map_of analytics_failed k = Some (JNum ''0'')
       \<and> map_of analytics_failed ''error'' = Some (JBool True)"
proof -
  have ok: "fst (getUserAnalytics (Fulfilled (JObj kvs)) w)
              = map_of (analytics_defaults (JObj kvs)) ++ map_of kvs"
    by (simp add: getUserAnalytics_def makeRequest_def axiosInstance_def Let_def)
  have 1: "fst (getUserAnalytics (Fulfilled (JObj kvs)) w) k
           = Some (case map_of kvs k of None \<Rightarrow> JNum ''0'' | Some v \<Rightarrow> v)"
    using analytics_defaults_key [OF assms, of "JObj kvs"]
    by (simp add: ok map_add_def split: option.splits)
  have 3: "fst (getUserAnalytics (Fulfilled JNull) w) = map_of analytics_failed"
    by (simp add: getUserAnalytics_def makeRequest_def axiosInstance_def Let_def)
  have 4: "fst (getUserAnalytics (Rejected e) w) = map_of analytics_failed"
    by (auto simp: getUserAnalytics_def makeRequest_def axiosInstance_def Let_def
             split: option.splits prod.splits)
  have 6: "map_of analytics_failed ''error'' = Some (JBool True)"
    by (simp add: analytics_failed_def)
  show ?thesis
    using 1 3 4 6 analytics_failed_key [OF assms] by simp
qed

theorem getUserAnalytics_fields_witness:
  "''success_rate'' \<in> set summary_fields
   \<and> fst (getUserAnalytics (Fulfilled (JObj [(''campaigns_count'', JNum ''3'')])) empty_browser)
        ''success_rate'' = Some (JNum ''0'')
   \<and> fst (getUserAnalytics (Rejected e500) empty_browser) ''success_rate'' = Some (JNum ''0'')
   \<and> fst (getUserAnalytics (Rejected e500) empty_browser) ''error'' = Some (JBool True)
   \<and> ''campaigns_count'' \<in> set summary_fields
   \<and> fst (getUserAnalytics (Fulfilled (JObj [(''campaigns_count'', JNum ''3'')])) empty_browser)
        ''campaigns_count'' = Some (JNum ''3'')"
  using getUserAnalytics_fields
          [of "''success_rate''" "[(''campaigns_count'', JNum ''3'')]" empty_browser e500]
        getUserAnalytics_fields
          [of "''campaigns_count''" "[(''campaigns_count'', JNum ''3'')]" empty_browser e500]
  by (simp add: summary_fields_def)

text \<open>
  C10 as stated fails at the successful response \<^verbatim>\<open>{"campaigns_count": "12"}\<close>: the
  field of the result is the string, not a number.
\<close>

theorem getUserAnalytics_counterexample:
  "''campaigns_count'' \<in> set summary_fields
   \<and> fst (getUserAnalytics (Fulfilled (JObj [(''campaigns_count'', JStr ''12'')])) empty_browser)
        ''campaigns_count'' = Some (JStr ''12'')"
  by (simp add: summary_fields_def getUserAnalytics_def makeRequest_def axiosInstance_def Let_def
        analytics_defaults_def map_add_def)

section \<open>Properties of the session controller\<close>

text \<open>
  C8, as amended.  For every failure of the current-user request, \<^verbatim>\<open>refreshUser\<close> returns
  \<^verbatim>\<open>null\<close> and leaves the provider's state, the user snapshot included, as it was.  When
  the failure is not a 401 response, the stored entries and the location are as they
  were too.  When it is a 401 response, the request has gone through the response
  interceptor, which removed \<^verbatim>\<open>access_token\<close> and \<^verbatim>\<open>user_info\<close> and navigated to the
  root.
\<close>

theorem refreshUser_failure:
  assumes "refreshUser (Rejected e) a w = (r, a', w')"
  shows "r = JNull \<and> a' = a
       \<and> (map_option fst (response e) \<noteq> Some 401
            \<longrightarrow> localStorage w' = localStorage w \<and> href w' = href w)
       \<and> (map_option fst (response e) = Some 401
            \<longrightarrow> localStorage w'
                  = (localStorage w)(''access_token'' := None, ''user_info'' := None)
                \<and> href w' = Some ''/'')"
  using assms
  by (auto simp: refreshUser_def getCurrentUser_def makeRequest_def axiosInstance_def Let_def
                 removeItem_def
           split: prod.splits sum.splits option.splits if_splits)

theorem refreshUser_failure_witness:
  "refreshUser (Rejected e500) (fst signed_in) (snd signed_in)
     = (JNull, fst signed_in,
        (snd signed_in)\<lparr>sent := sent (snd signed_in) @
           [\<lparr>http_method = ''get'', url = ''/api/auth/me'',
             authorization = Some (Plain ''tok'')\<rparr>]\<rparr>)
   \<and> map_option fst (response e500) \<noteq> Some 401
   \<and> localStorage (snd (snd (refreshUser (Rejected e500) (fst signed_in) (snd signed_in))))
       = localStorage (snd signed_in)
   \<and> map_option fst (response e401) = Some 401
   \<and> fst (snd (refreshUser (Rejected e401) (fst signed_in) (snd signed_in))) = fst signed_in
   \<and> localStorage (snd (snd (refreshUser (Rejected e401) (fst signed_in) (snd signed_in))))
       = (localStorage (snd signed_in))(''access_token'' := None, ''user_info'' := None)"
proof -
  have run: "refreshUser (Rejected e500) (fst signed_in) (snd signed_in)
     = (JNull, fst signed_in,
        (snd signed_in)\<lparr>sent := sent (snd signed_in) @
           [\<lparr>http_method = ''get'', url = ''/api/auth/me'',
             authorization = Some (Plain ''tok'')\<rparr>]\<rparr>)"
    by (simp add: refreshUser_def getCurrentUser_def makeRequest_def axiosInstance_def Let_def
          e500_def getToken_def signed_in_storage)
  have ok: "map_option fst (response e500) \<noteq> Some 401"
    by (simp add: e500_def)
  have un: "map_option fst (response e401) = Some 401"
    by (simp add: e401_def)
  obtain r a' w' where run401:
    "refreshUser (Rejected e401) (fst signed_in) (snd signed_in) = (r, a', w')"
    by (cases "refreshUser (Rejected e401) (fst signed_in) (snd signed_in)")
  from refreshUser_failure [OF run401] un
  have "a' = fst signed_in"
    and "localStorage w'
           = (localStorage (snd signed_in))(''access_token'' := None, ''user_info'' := None)"
    by simp_all
  with run run401 ok un refreshUser_failure [OF run] show ?thesis
    by simp
qed

text \<open>
  C8 as stated fails when the failure is a 401 response: the token stored at login is
  gone after \<^verbatim>\<open>refreshUser\<close>, and the browser was sent to the root.
\<close>

theorem refreshUser_401_counterexample:
  "localStorage (snd signed_in) ''access_token'' = Some (Plain ''tok'')
   \<and> fst (refreshUser (Rejected e401) (fst signed_in) (snd signed_in)) = JNull
   \<and> localStorage (snd (snd (refreshUser (Rejected e401) (fst signed_in) (snd signed_in))))
        ''access_token'' = None
   \<and> href (snd (snd (refreshUser (Rejected e401) (fst signed_in) (snd signed_in))))
        = Some ''/''"
  by (simp add: refreshUser_def getCurrentUser_def makeRequest_def axiosInstance_def Let_def
        e401_def signed_in_storage removeItem_def)









section \<open>Properties of status polling\<close>



















text \<open>
  A failed check adds one to the error count and leaves the status received so far as it
  is; the change of the count makes the effect run again, which starts a new interval.
  So a run of failures never stops the polling, however long it is.
\<close>

lemma failed_round:
  assumes "polling p"
  shows "polling (run [Tick, Settle 0 (Rejected e)] p)
       \<and> polls (run [Tick, Settle 0 (Rejected e)] p) = polls p + 1
       \<and> statusCheckErrors (run [Tick, Settle 0 (Rejected e)] p) = statusCheckErrors p + 1
       \<and> campaignStatus (run [Tick, Settle 0 (Rejected e)] p) = campaignStatus p
       \<and> processingCampaignId (run [Tick, Settle 0 (Rejected e)] p) = processingCampaignId p"
proof -
  from assms obtain c where c: "timer p = Some c" "cl_errors c = statusCheckErrors p"
    and f: "in_flight p = []" and e: "effect_cond p"
    by (auto simp: polling_def)
  define p1 where "p1 = p\<lparr>in_flight := [c], polls := polls p + 1\<rparr>"
  have s1: "step Tick p = p1" using c f by (simp add: step_def p1_def)
  define p2 where "p2 = p1\<lparr>in_flight := []\<rparr>"
  define q where "q = on_error c p2"
  have s2: "step (Settle 0 (Rejected e)) p1 = rerender p2 q"
    by (simp add: step_def p1_def p2_def q_def Let_def)
  have qf: "statusCheckErrors q = statusCheckErrors p + 1" "campaignStatus q = campaignStatus p"
    "processingCampaignId q = processingCampaignId p" "polls q = polls p + 1" "in_flight q = []"
    by (simp_all add: q_def on_error_def clearInterval_def p2_def p1_def Let_def)
  have "deps q \<noteq> deps p2"
    using qf(1) by (simp add: deps_def p2_def p1_def)
  then have r: "rerender p2 q = run_effect (q\<lparr>timer := None\<rparr>)"
    by (simp add: rerender_def)
  have ec: "effect_cond (q\<lparr>timer := None\<rparr>)"
    using e qf by (simp add: effect_cond_def)
  have "polling (run_effect (q\<lparr>timer := None\<rparr>))"
    using ec qf by (simp add: polling_def run_effect_def effect_cond_def)
  moreover have "polls (run_effect (q\<lparr>timer := None\<rparr>)) = polls p + 1"
    "statusCheckErrors (run_effect (q\<lparr>timer := None\<rparr>)) = statusCheckErrors p + 1"
    "campaignStatus (run_effect (q\<lparr>timer := None\<rparr>)) = campaignStatus p"
    "processingCampaignId (run_effect (q\<lparr>timer := None\<rparr>)) = processingCampaignId p"
    using qf by (simp_all add: run_effect_def)
  ultimately show ?thesis by (simp add: s1 s2 r)
qed

lemma run_append: "run (xs @ ys) p = run ys (run xs p)"
  by (induction xs arbitrary: p) simp_all

lemma failures_Suc: "failures (Suc n) e = failures n e @ [Tick, Settle 0 (Rejected e)]"
proof -
  have "replicate (Suc n) x = replicate n x @ [x]" for x :: "event list"
    by (simp add: replicate_append_same)
  then show ?thesis by (simp add: failures_def)
qed

lemma failures_never_stop:
  assumes "polling p"
  shows "polling (run (failures n e) p)
       \<and> polls (run (failures n e) p) = polls p + n
       \<and> statusCheckErrors (run (failures n e) p) = statusCheckErrors p + n
       \<and> campaignStatus (run (failures n e) p) = campaignStatus p"
proof (induction n)
  case 0
  with assms show ?case by (simp add: failures_def)
next
  case (Suc n)
  then have "polling (run (failures n e) p)" by simp
  from failed_round [OF this, of e] Suc show ?case
    by (simp add: failures_Suc run_append del: run.simps)
qed

lemma polling_started:
  assumes "truthy campaign_id"
  shows "polling (started campaign_id total_urls)"
  using assms by (simp add: polling_def started_def run_effect_def effect_cond_def opt_prop_def)

lemma failures_from_start:
  assumes "truthy campaign_id"
  shows "polls (run (failures n e) (started campaign_id total_urls)) = n
       \<and> statusCheckErrors (run (failures n e) (started campaign_id total_urls)) = n
       \<and> timer (run (failures n e) (started campaign_id total_urls)) \<noteq> None
       \<and> campaignStatus (run (failures n e) (started campaign_id total_urls))
            = campaignStatus (started campaign_id total_urls)"
proof -
  have p: "polling (started campaign_id total_urls)"
    using assms by (rule polling_started)
  have z: "polls (started campaign_id total_urls) = 0"
    "statusCheckErrors (started campaign_id total_urls) = 0"
    by (simp_all add: started_def run_effect_def)
  have "polling (run (failures n e) (started campaign_id total_urls))"
    using failures_never_stop [OF p] by simp
  then have "timer (run (failures n e) (started campaign_id total_urls)) \<noteq> None"
    by (auto simp: polling_def)
  with failures_never_stop [OF p, of n e] z show ?thesis by simp
qed

text \<open>
  C5.  The claim: after 10 consecutive failed status checks polling stops, no 11th poll
  is issued, and the lost connection is reported.  The code, for campaign 42, with every
  status check failing: after 10 failures the error count is 10, nothing has been
  reported and the interval runs, so the 11th poll is sent.  The 11th failure is the
  first whose closure holds a count of 10: it clears its interval and reports the lost
  connection, and the render that follows starts a new interval, so a 12th poll is sent.
\<close>

theorem eleventh_poll_is_sent:
  "polls (run (failures 10 e500) campaign42) = 10
   \<and> statusCheckErrors (run (failures 10 e500) campaign42) = 10
   \<and> error_state (run (failures 10 e500) campaign42) = JNull
   \<and> timer (run (failures 10 e500) campaign42) \<noteq> None
   \<and> polls (run (failures 10 e500 @ [Tick]) campaign42) = 11
   \<and> error_state (run (failures 11 e500) campaign42)
        = JStr ''Lost connection to campaign processing. Please check campaign list.''
   \<and> timer (run (failures 11 e500) campaign42) \<noteq> None
   \<and> polls (run (failures 11 e500 @ [Tick]) campaign42) = 12"
  by code_simp

text \<open>
  A response that was in flight when the completing one arrived is still applied: with
  two requests in flight, the second reports completion and the first, settling later,
  replaces the completed status.
\<close>

lemma late_response_is_applied:
  "campaignStatus (run [Tick, Tick, Settle 1 (Fulfilled completed_status)] campaign42)
     = completed_status
   \<and> timer (run [Tick, Tick, Settle 1 (Fulfilled completed_status)] campaign42) = None
   \<and> campaignStatus (run [Tick, Tick, Settle 1 (Fulfilled completed_status),
                            Settle 0 (Fulfilled running_status)] campaign42) = running_status"
  by code_simp

section \<open>Properties of the push channel\<close>

lemma open_channel_connected:
  "connectWebSocket (JNum ''42'') (with_token ''tok'') = Inr ch \<Longrightarrow> ws_open ch = open_channel"
  by (auto simp: connectWebSocket_def with_token_def setItem_def empty_browser_def getToken_def
        ws_open_def open_channel_def digit_def)









section \<open>Properties of the dashboard fetch\<close>

text \<open>
  The guard: a call that is not forced is a no-op, with no request sent and no ref
  changed, when the previous fetch started less than a second ago, and also while a fetch
  is loading.
\<close>

lemma cooldown_suppressed:
  assumes "\<not> forceRefresh" and "now - lastFetchTimeRef d < 1000"
  shows "fetchDashboardData forceRefresh now d = d"
  using assms by (simp add: fetchDashboardData_def)

lemma loading_suppressed:
  assumes "\<not> forceRefresh" and "isLoadingRef d"
  shows "fetchDashboardData forceRefresh now d = d"
  using assms by (simp add: fetchDashboardData_def)

lemma second_call_within_500ms:
  "fetchDashboardData False 5500 (fetchDashboardData False 5000 (first_render (with_token ''tok'')))
     = fetchDashboardData False 5000 (first_render (with_token ''tok''))"
proof -
  have "lastFetchTimeRef (fetchDashboardData False 5000 (first_render (with_token ''tok''))) = 5000"
    by code_simp
  then show ?thesis by (simp add: cooldown_suppressed)
qed





















text \<open>
  While a batch is in flight the loading screen is up and a click changes nothing.  It is
  this, not the abort, that keeps an older batch from writing: were
  \<^verbatim>\<open>fetchDashboardData(true)\<close> called while the first batch awaits its analytics
  request, which by the above no run does, the first batch would go on with \<^verbatim>\<open>null\<close>
  analytics, send its six supporting requests with the signal of the new controller, and
  write after the newer batch.
\<close>

lemma abort_keeps_the_batch:
  "screen_of mounted_dash = LoadingScreen
   \<and> dash_step no_json (Refresh 5200) mounted_dash = mounted_dash
   \<and> dash_step no_json (SelectPeriod ''week'' 7000) mounted_dash = mounted_dash
   \<and> aborted (fetchDashboardData True 5200 mounted_dash) = [1]
   \<and> shown (support_settled 0 six_bodies None
              (support_settled 1 six_bodies None
                (analytics_settled 1 (ok refreshed_body)
                  (analytics_settled 0 (ok analytics_body)
                    (fetchDashboardData True 5200 mounted_dash)))))
        = Some (JNull, replicate 6 (JObj []))"
proof -
  have 1: "screen_of mounted_dash = LoadingScreen" by code_simp
  have 2: "aborted (fetchDashboardData True 5200 mounted_dash) = [1]" by code_simp
  have 3: "shown (support_settled 0 six_bodies None
              (support_settled 1 six_bodies None
                (analytics_settled 1 (ok refreshed_body)
                  (analytics_settled 0 (ok analytics_body)
                    (fetchDashboardData True 5200 mounted_dash)))))
        = Some (JNull, replicate 6 (JObj []))" by code_simp
  show ?thesis using 1 2 3 by simp
qed

end
